theory Spec2Isabelle
  imports Main "HOL-Library.Sublist"
begin

section \<open>JavaScript values and the operations the script applies to them\<close>

text \<open>
  The script \<^verbatim>\<open>main/static/main/js/script.js\<close> reads the value that
  \<^verbatim>\<open>response.json()\<close> yields, reads properties of it, compares one of them
  with \<^verbatim>\<open>'success'\<close> and interpolates the others into template literals.
  A thrown exception or a rejected promise is a value of \<open>js_error\<close>; \<open>Other\<close>
  carries the name of any reason that is neither a TypeError nor a SyntaxError.
\<close>

datatype js_error = TypeError | SyntaxError | Other string

text \<open>
  A number is carried as the text that JavaScript's number-to-string conversion gives
  for it: the script never computes with a number, it only interpolates it.
  An object is carried as the list of its own properties.
\<close>

datatype jsval =
    JUndefined
  | JNull
  | JBool bool
  | JNum string
  | JStr string
  | JArr "jsval list"
  | JObj "(string \<times> jsval) list"

definition and_then :: "js_error + 'a \<Rightarrow> ('a \<Rightarrow> js_error + 'b) \<Rightarrow> js_error + 'b" where
  "and_then r f = (case r of Inl e \<Rightarrow> Inl e | Inr v \<Rightarrow> f v)"

text \<open>
  Property read \<^verbatim>\<open>v.k\<close>. Reading a property of \<^verbatim>\<open>undefined\<close> or
  \<^verbatim>\<open>null\<close> throws a TypeError. The names the script reads (\<^verbatim>\<open>status\<close>,
  \<^verbatim>\<open>consignment\<close>, \<^verbatim>\<open>message\<close> and the seven consignment fields) are
  defined on no prototype, so on an object without the property, and on a boolean, number,
  string or array, the read yields \<^verbatim>\<open>undefined\<close>.
\<close>

fun get_prop :: "jsval \<Rightarrow> string \<Rightarrow> js_error + jsval" where
  "get_prop JUndefined k = Inl TypeError"
| "get_prop JNull k = Inl TypeError"
| "get_prop (JObj kvs) k = Inr (case map_of kvs k of None \<Rightarrow> JUndefined | Some v \<Rightarrow> v)"
| "get_prop v k = Inr JUndefined"

text \<open>
  The string conversion a template literal applies to \<^verbatim>\<open>${v}\<close>. An array is
  joined with commas, an \<^verbatim>\<open>undefined\<close> or \<^verbatim>\<open>null\<close> element giving the
  empty string. A parsed object gives \<^verbatim>\<open>[object Object]\<close>, unless it has an own
  property \<^verbatim>\<open>toString\<close>: that property hides the inherited method and is not
  callable, and the conversion throws a TypeError.
\<close>

fun to_string :: "jsval \<Rightarrow> js_error + string"
  and join_elements :: "jsval list \<Rightarrow> js_error + string" where
  "to_string JUndefined = Inr ''undefined''"
| "to_string JNull = Inr ''null''"
| "to_string (JBool b) = Inr (if b then ''true'' else ''false'')"
| "to_string (JNum r) = Inr r"
| "to_string (JStr s) = Inr s"
| "to_string (JArr xs) = join_elements xs"
| "to_string (JObj kvs) =
     (if map_of kvs ''toString'' = None then Inr ''[object Object]'' else Inl TypeError)"
| "join_elements [] = Inr []"
| "join_elements (x # xs) =
     (case (if x = JUndefined \<or> x = JNull then Inr [] else to_string x) of
        Inl e \<Rightarrow> Inl e
      | Inr t \<Rightarrow>
          (if xs = [] then Inr t
           else (case join_elements xs of Inl e \<Rightarrow> Inl e | Inr r \<Rightarrow> Inr (t @ '','' @ r))))"

text \<open>The substitution \<^verbatim>\<open>${v.k}\<close> of a template literal.\<close>

definition interpolate :: "jsval \<Rightarrow> string \<Rightarrow> js_error + string" where
  "interpolate v k = and_then (get_prop v k) to_string"

section \<open>The page\<close>

text \<open>
  The document is a store from element ids to elements, as
  \<^verbatim>\<open>document.getElementById\<close> sees it; an element the script holds in a variable
  is referred to by its id, since the script neither removes nor renames an element.
  Of an element the model keeps what the script reads or writes: the \<^verbatim>\<open>value\<close>
  of an input, \<^verbatim>\<open>innerHTML\<close>, \<^verbatim>\<open>style.opacity\<close> and
  \<^verbatim>\<open>style.display\<close>.
\<close>

record element =
  el_value :: string
  innerHTML :: string
  style_opacity :: string
  style_display :: string

record event =
  defaultPrevented :: bool

text \<open>The two arrow functions the splash controller passes to \<^verbatim>\<open>setTimeout\<close>.\<close>

datatype timer_callback = FadeSplash | HideSplash

text \<open>
  \<open>location_href\<close> is the URL a navigation was asked for (\<open>None\<close> while the page
  stays), \<open>requests\<close> the requests issued by \<^verbatim>\<open>fetch\<close> as method and URL,
  \<open>console\<close> the calls of \<^verbatim>\<open>console.error\<close>, \<open>clock\<close> the time in
  milliseconds and \<open>timers\<close> the pending timeouts with the time each is due.
\<close>

record browser =
  elements :: "string \<Rightarrow> element option"
  pathname :: string
  location_href :: "string option"
  requests :: "(string \<times> string) list"
  console :: "(string \<times> js_error) list"
  clock :: nat
  timers :: "(nat \<times> timer_callback) list"

definition getElementById :: "browser \<Rightarrow> string \<Rightarrow> element option" where
  "getElementById s i = elements s i"

definition update_element :: "string \<Rightarrow> (element \<Rightarrow> element) \<Rightarrow> browser \<Rightarrow> browser" where
  "update_element i f s = s\<lparr>elements := (elements s)(i := map_option f (elements s i))\<rparr>"

text \<open>\<^verbatim>\<open>fetch(url)\<close> with no options issues a GET request.\<close>

definition fetch :: "string \<Rightarrow> browser \<Rightarrow> browser" where
  "fetch url s = s\<lparr>requests := requests s @ [(''GET'', url)]\<rparr>"

text \<open>
  What the request comes to: the promise of \<^verbatim>\<open>fetch\<close> is rejected, or it is
  fulfilled with a response, and then \<open>json_body\<close> is what \<^verbatim>\<open>response.json()\<close>
  settles to: the parsed value, or the reason of the rejection when the body is not JSON.
\<close>

datatype fetch_result = NetworkFailure js_error | Response (json_body: "js_error + jsval")

section \<open>The tracking form\<close>

text \<open>
  The \<^verbatim>\<open>submit\<close> listener of \<^verbatim>\<open>tracking-form\<close>, which the script
  registers on \<^verbatim>\<open>DOMContentLoaded\<close> when the page has the form, up to the call
  of \<^verbatim>\<open>fetch\<close>. It returns the event, the page, and either the exception that left
  the listener or the value of \<^verbatim>\<open>resultDiv\<close> that the callbacks hold:
  \<open>None\<close> for \<^verbatim>\<open>null\<close>. Reading \<^verbatim>\<open>.value\<close> of a missing
  input throws a TypeError, after \<^verbatim>\<open>preventDefault\<close> has run.
\<close>

definition tracking_submit ::
  "event \<Rightarrow> browser \<Rightarrow> event \<times> browser \<times> (js_error + string option)" where
  "tracking_submit e s =
     (let e1 = e\<lparr>defaultPrevented := True\<rparr> in
      case getElementById s ''consignment_number'' of
        None \<Rightarrow> (e1, s, Inl TypeError)
      | Some input \<Rightarrow>
          (let consignmentNumber = el_value input;
               resultDiv = (case getElementById s ''tracking-result'' of
                              None \<Rightarrow> None
                            | Some _ \<Rightarrow> Some ''tracking-result'')
           in (e1,
               fetch (pathname s @ ''?consignment_number='' @ consignmentNumber) s,
               Inr resultDiv)))"

text \<open>
  The assignment \<^verbatim>\<open>resultDiv.innerHTML = html\<close>: a TypeError when
  \<^verbatim>\<open>resultDiv\<close> is \<^verbatim>\<open>null\<close>.
\<close>

definition set_innerHTML :: "string option \<Rightarrow> string \<Rightarrow> browser \<Rightarrow> js_error + browser" where
  "set_innerHTML resultDiv html s =
     (case resultDiv of
        None \<Rightarrow> Inl TypeError
      | Some i \<Rightarrow> Inr (update_element i (\<lambda>el. el\<lparr>innerHTML := html\<rparr>) s))"

text \<open>The template literal of the success branch, with \<^verbatim>\<open>c = data.consignment\<close>.\<close>

definition success_panel :: "jsval \<Rightarrow> js_error + string" where
  \<open>success_panel c =
     and_then (interpolate c ''consignment_number'') (\<lambda>v1.
     and_then (interpolate c ''status'') (\<lambda>v2.
     and_then (interpolate c ''origin'') (\<lambda>v3.
     and_then (interpolate c ''destination'') (\<lambda>v4.
     and_then (interpolate c ''current_location'') (\<lambda>v5.
     and_then (interpolate c ''estimated_delivery'') (\<lambda>v6.
     and_then (interpolate c ''updated_at'') (\<lambda>v7.
     Inr (''\<newline>                            <div class="alert alert-success">\<newline>                                <h4>Tracking Details for '' @ v1 @
          ''</h4>\<newline>                                <p><strong>Status:</strong> '' @ v2 @
          ''</p>\<newline>                                <p><strong>Origin:</strong> '' @ v3 @
          ''</p>\<newline>                                <p><strong>Destination:</strong> '' @ v4 @
          ''</p>\<newline>                                <p><strong>Current Location:</strong> '' @ v5 @
          ''</p>\<newline>                                <p><strong>Estimated Delivery:</strong> '' @ v6 @
          ''</p>\<newline>                                <p><em>Last Updated: '' @ v7 @
          ''</em></p>\<newline>                            </div>\<newline>                        ''))))))))\<close>

text \<open>
  The callback \<^verbatim>\<open>data => { ... }\<close>. \<open>Inl\<close> is an exception thrown in it;
  the page is then as it was, the assignment to \<^verbatim>\<open>innerHTML\<close> being the
  callback's only effect and its last step.
\<close>

definition on_data :: "string option \<Rightarrow> jsval \<Rightarrow> browser \<Rightarrow> js_error + browser" where
  \<open>on_data resultDiv data s =
     and_then (get_prop data ''status'') (\<lambda>status.
       if status = JStr ''success'' then
         and_then (get_prop data ''consignment'') (\<lambda>c.
         and_then (success_panel c) (\<lambda>html.
         set_innerHTML resultDiv html s))
       else
         and_then (interpolate data ''message'') (\<lambda>message.
         set_innerHTML resultDiv (''<div class="alert alert-danger">'' @ message @ ''</div>'') s))\<close>

text \<open>
  The callback \<^verbatim>\<open>error => { ... }\<close> of \<^verbatim>\<open>catch\<close>. It returns the page
  and the exception that left it, if any: the error is logged before the assignment
  is tried.
\<close>

definition on_error :: "string option \<Rightarrow> js_error \<Rightarrow> browser \<Rightarrow> browser \<times> js_error option" where
  \<open>on_error resultDiv error s =
     (let s1 = s\<lparr>console := console s @ [(''Error:'', error)]\<rparr> in
      case set_innerHTML resultDiv
             ''<div class="alert alert-danger">An error occurred. Please try again.</div>'' s1 of
        Inl e \<Rightarrow> (s1, Some e)
      | Inr s2 \<Rightarrow> (s2, None))\<close>

text \<open>
  The chain \<^verbatim>\<open>fetch(...).then(response => response.json()).then(data => ...).catch(error => ...)\<close>
  once the request has come to \<open>r\<close>: a rejection of \<^verbatim>\<open>fetch\<close>, a rejection
  of \<^verbatim>\<open>response.json()\<close> and an exception in the data callback all reach
  \<^verbatim>\<open>catch\<close>.
\<close>

definition tracking_settled ::
  "string option \<Rightarrow> fetch_result \<Rightarrow> browser \<Rightarrow> browser \<times> js_error option" where
  "tracking_settled resultDiv r s =
     (case (case r of NetworkFailure e \<Rightarrow> Inl e | Response body \<Rightarrow> body) of
        Inl e \<Rightarrow> on_error resultDiv e s
      | Inr data \<Rightarrow>
          (case on_data resultDiv data s of
             Inl e \<Rightarrow> on_error resultDiv e s
           | Inr s1 \<Rightarrow> (s1, None)))"

text \<open>One submission of the tracking form whose request comes to \<open>r\<close>.\<close>

definition submit_tracking_form ::
  "fetch_result \<Rightarrow> event \<Rightarrow> browser \<Rightarrow> event \<times> browser \<times> js_error option" where
  "submit_tracking_form r e s =
     (case tracking_submit e s of
        (e1, s1, Inl err) \<Rightarrow> (e1, s1, Some err)
      | (e1, s1, Inr resultDiv) \<Rightarrow>
          (case tracking_settled resultDiv r s1 of (s2, u) \<Rightarrow> (e1, s2, u)))"

text \<open>What the element \<^verbatim>\<open>tracking-result\<close> shows, if the page has it.\<close>

definition tracking_result_html :: "browser \<Rightarrow> string option" where
  "tracking_result_html s = map_option innerHTML (getElementById s ''tracking-result'')"

section \<open>The homepage search form\<close>

text \<open>
  The \<^verbatim>\<open>submit\<close> listener of \<^verbatim>\<open>home-tracking-form\<close>, registered like
  the other when the page has the form. A string is truthy when it is not empty.
\<close>

definition home_submit :: "event \<Rightarrow> browser \<Rightarrow> event \<times> browser \<times> js_error option" where
  "home_submit e s =
     (let e1 = e\<lparr>defaultPrevented := True\<rparr> in
      case getElementById s ''home-tracking-id'' of
        None \<Rightarrow> (e1, s, Some TypeError)
      | Some input \<Rightarrow>
          (let trackingId = el_value input in
           if trackingId \<noteq> [] then
             (e1, s\<lparr>location_href := Some (''/track-consignment/?consignment_number='' @ trackingId)\<rparr>, None)
           else (e1, s, None)))"

text \<open>
  Dispatch of a \<^verbatim>\<open>submit\<close> event to a listener: the event starts not prevented,
  and when the listener has not prevented it the browser performs the form's default
  action, a navigation to \<open>action\<close>, the URL the form submits to.
\<close>

definition dispatch_submit ::
  "(event \<Rightarrow> browser \<Rightarrow> event \<times> browser \<times> 'r) \<Rightarrow> string \<Rightarrow> browser \<Rightarrow> browser \<times> 'r" where
  "dispatch_submit listener action s =
     (case listener \<lparr>defaultPrevented = False\<rparr> s of
        (e1, s1, r) \<Rightarrow>
          (if defaultPrevented e1 then (s1, r) else (s1\<lparr>location_href := Some action\<rparr>, r)))"

section \<open>The splash controller\<close>

text \<open>
  \<^verbatim>\<open>setTimeout(cb, delay)\<close> makes \<open>cb\<close> due \<open>delay\<close> milliseconds from now.
\<close>

definition setTimeout :: "timer_callback \<Rightarrow> nat \<Rightarrow> browser \<Rightarrow> browser" where
  "setTimeout cb delay s = s\<lparr>timers := timers s @ [(clock s + delay, cb)]\<rparr>"

text \<open>The listener of the \<^verbatim>\<open>load\<close> event.\<close>

definition on_load :: "browser \<Rightarrow> browser" where
  "on_load s =
     (case getElementById s ''splash-screen'' of
        None \<Rightarrow> s
      | Some splashScreen \<Rightarrow> setTimeout FadeSplash 3000 s)"

fun run_callback :: "timer_callback \<Rightarrow> browser \<Rightarrow> browser" where
  "run_callback FadeSplash s =
     setTimeout HideSplash 1000
       (update_element ''splash-screen'' (\<lambda>el. el\<lparr>style_opacity := ''0''\<rparr>) s)"
| "run_callback HideSplash s =
     update_element ''splash-screen'' (\<lambda>el. el\<lparr>style_display := ''none''\<rparr>) s"

text \<open>
  Timers fire at the time they are due, the earliest first and, among timers due at the
  same time, the one set first. \<open>run_timers t s\<close> lets the time pass until \<open>t\<close>.
\<close>

fun earliest :: "(nat \<times> timer_callback) list \<Rightarrow> (nat \<times> timer_callback) option" where
  "earliest [] = None"
| "earliest (x # xs) =
     (case earliest xs of
        None \<Rightarrow> Some x
      | Some y \<Rightarrow> if fst x \<le> fst y then Some x else Some y)"

fun callback_weight :: "timer_callback \<Rightarrow> nat" where
  "callback_weight FadeSplash = 2"
| "callback_weight HideSplash = 1"

definition pending_weight :: "browser \<Rightarrow> nat" where
  "pending_weight s = sum_list (map (\<lambda>p. callback_weight (snd p)) (timers s))"

lemma earliest_in_set: "earliest ts = Some x \<Longrightarrow> x \<in> set ts"
  by (induction ts arbitrary: x) (auto split: option.splits if_splits)

lemma pending_weight_run_callback:
  assumes "(due, cb) \<in> set (timers s)"
  shows "pending_weight (run_callback cb (s\<lparr>clock := c, timers := remove1 (due, cb) (timers s)\<rparr>))
           < pending_weight s"
proof -
  have "sum_list (map (\<lambda>p. callback_weight (snd p)) (timers s)) =
          callback_weight cb + sum_list (map (\<lambda>p. callback_weight (snd p)) (remove1 (due, cb) (timers s)))"
    using sum_list_map_remove1 [OF assms, of "\<lambda>p. callback_weight (snd p)"] by simp
  then show ?thesis
    by (cases cb) (simp_all add: pending_weight_def setTimeout_def update_element_def)
qed

function run_timers :: "nat \<Rightarrow> browser \<Rightarrow> browser" where
  "run_timers t s =
     (case earliest (timers s) of
        None \<Rightarrow> s\<lparr>clock := max (clock s) t\<rparr>
      | Some (due, cb) \<Rightarrow>
          if due \<le> t then
            run_timers t
              (run_callback cb
                 (s\<lparr>clock := max (clock s) due, timers := remove1 (due, cb) (timers s)\<rparr>))
          else s\<lparr>clock := max (clock s) t\<rparr>)"
  by pat_completeness auto
termination
  by (relation "measure (\<lambda>(t, s). pending_weight s)")
     (auto dest!: earliest_in_set intro: pending_weight_run_callback)

declare run_timers.simps [simp del]

section \<open>The request as the backend reads it\<close>

text \<open>
  Modelled from the spec: the backend that answers the request and serves the tracking
  page is not part of the source; section 6 of the specification gives its interface as
  \<^verbatim>\<open>GET <path>?consignment_number=<value>\<close>. The model reads a URL the way that
  interface is written: the query runs from the first \<^verbatim>\<open>?\<close> to the first
  \<^verbatim>\<open>#\<close>, its parameters are separated by \<^verbatim>\<open>&\<close>, and in a parameter
  the name ends at the first \<^verbatim>\<open>=\<close>. \<open>query_param name url\<close> is the value of
  the first parameter called \<open>name\<close>.
\<close>

fun split_on :: "char \<Rightarrow> string \<Rightarrow> string list" where
  "split_on c [] = [[]]"
| "split_on c (x # xs) =
     (if x = c then [] # split_on c xs
      else (case split_on c xs of [] \<Rightarrow> [[x]] | w # ws \<Rightarrow> (x # w) # ws))"

definition url_query :: "string \<Rightarrow> string" where
  "url_query url =
     drop 1 (dropWhile (\<lambda>c. c \<noteq> CHR ''?'') (takeWhile (\<lambda>c. c \<noteq> CHR ''#'') url))"

definition query_param :: "string \<Rightarrow> string \<Rightarrow> string option" where
  "query_param name url =
     map_of
       (map (\<lambda>p. (takeWhile (\<lambda>c. c \<noteq> CHR ''='') p, drop 1 (dropWhile (\<lambda>c. c \<noteq> CHR ''='') p)))
            (split_on (CHR ''&'') (url_query url)))
       name"

section \<open>Pages and responses to try the script on\<close>

definition blank_element :: element where
  "blank_element = \<lparr>el_value = [], innerHTML = [], style_opacity = [], style_display = []\<rparr>"

text \<open>The tracking page, with \<open>v\<close> typed into the input.\<close>

definition tracking_page :: "string \<Rightarrow> browser" where
  "tracking_page v =
     \<lparr>elements = [''tracking-form'' \<mapsto> blank_element,
                   ''consignment_number'' \<mapsto> blank_element\<lparr>el_value := v\<rparr>,
                   ''tracking-result'' \<mapsto> blank_element],
      pathname = ''/track-consignment/'',
      location_href = None,
      requests = [],
      console = [],
      clock = 0,
      timers = []\<rparr>"

text \<open>The homepage, with a splash screen and \<open>v\<close> typed into the search box.\<close>

definition home_page :: "string \<Rightarrow> browser" where
  "home_page v =
     \<lparr>elements = [''splash-screen'' \<mapsto> blank_element\<lparr>style_opacity := ''1'', style_display := ''flex''\<rparr>,
                   ''home-tracking-form'' \<mapsto> blank_element,
                   ''home-tracking-id'' \<mapsto> blank_element\<lparr>el_value := v\<rparr>],
      pathname = ''/'',
      location_href = None,
      requests = [],
      console = [],
      clock = 0,
      timers = []\<rparr>"

definition example_consignment :: jsval where
  "example_consignment =
     JObj [(''consignment_number'', JStr ''DL1001''),
           (''status'', JStr ''In Transit''),
           (''origin'', JStr ''Nagpur''),
           (''destination'', JStr ''Pune''),
           (''current_location'', JStr ''<b>Nashik</b>''),
           (''estimated_delivery'', JStr ''05 Jan 2025''),
           (''updated_at'', JStr ''02 Jan 2025, 10:30'')]"

definition example_success :: jsval where
  "example_success = JObj [(''status'', JStr ''success''), (''consignment'', example_consignment)]"

definition example_failure :: jsval where
  "example_failure = JObj [(''status'', JStr ''failure''), (''message'', JStr ''Not found'')]"

definition example_markup :: jsval where
  \<open>example_markup =
     JObj [(''status'', JStr ''success''),
           (''consignment'',
            JObj [(''consignment_number'', JStr ''<i>DL1001</i>''),
                  (''status'', JStr ''<script>alert(1)</script>''),
                  (''origin'', JStr ''Nagpur & Wardha''),
                  (''destination'', JStr ''<a href="/x">Pune</a>''),
                  (''current_location'', JStr ''<b>Nashik</b>''),
                  (''estimated_delivery'', JStr ''5 < 6''),
                  (''updated_at'', JStr ''<!-- -->'')])]\<close>

section \<open>Facts about the tracking form\<close>

lemma interpolate_string_field:
  "map_of fs k = Some (JStr v) \<Longrightarrow> interpolate (JObj fs) k = Inr v"
  by (simp add: interpolate_def and_then_def)

lemma success_panel_strings:
  assumes "map_of fs ''consignment_number'' = Some (JStr n)"
    and "map_of fs ''status'' = Some (JStr st)"
    and "map_of fs ''origin'' = Some (JStr orig)"
    and "map_of fs ''destination'' = Some (JStr dest)"
    and "map_of fs ''current_location'' = Some (JStr loc)"
    and "map_of fs ''estimated_delivery'' = Some (JStr eta)"
    and "map_of fs ''updated_at'' = Some (JStr upd)"
  shows \<open>success_panel (JObj fs) = Inr (''\<newline>                            <div class="alert alert-success">\<newline>                                <h4>Tracking Details for '' @ n @ ''</h4>\<newline>                                <p><strong>Status:</strong> '' @ st @ ''</p>\<newline>                                <p><strong>Origin:</strong> '' @ orig @ ''</p>\<newline>                                <p><strong>Destination:</strong> '' @ dest @ ''</p>\<newline>                                <p><strong>Current Location:</strong> '' @ loc @ ''</p>\<newline>                                <p><strong>Estimated Delivery:</strong> '' @ eta @ ''</p>\<newline>                                <p><em>Last Updated: '' @ upd @ ''</em></p>\<newline>                            </div>\<newline>                        '')\<close>
  unfolding success_panel_def
  by (simp only: interpolate_string_field [OF assms(1)] interpolate_string_field [OF assms(2)]
      interpolate_string_field [OF assms(3)] interpolate_string_field [OF assms(4)]
      interpolate_string_field [OF assms(5)] interpolate_string_field [OF assms(6)]
      interpolate_string_field [OF assms(7)] and_then_def sum.case)

lemma tracking_submit_present:
  assumes "getElementById s ''consignment_number'' = Some input"
    and "getElementById s ''tracking-result'' = Some el"
  shows "tracking_submit e s =
           (e\<lparr>defaultPrevented := True\<rparr>,
            fetch (pathname s @ ''?consignment_number='' @ el_value input) s,
            Inr (Some ''tracking-result''))"
  using assms by (simp add: tracking_submit_def)

lemma getElementById_fetch: "getElementById (fetch url s) i = getElementById s i"
  by (simp add: getElementById_def fetch_def)

lemma tracking_result_html_update:
  "getElementById s ''tracking-result'' \<noteq> None \<Longrightarrow>
   tracking_result_html (update_element ''tracking-result'' (\<lambda>el. el\<lparr>innerHTML := html\<rparr>) s) = Some html"
  by (auto simp add: tracking_result_html_def getElementById_def update_element_def)

lemma on_data_success:
  assumes "map_of kvs ''status'' = Some (JStr ''success'')"
    and "map_of kvs ''consignment'' = Some c"
    and "success_panel c = Inr html"
  shows "on_data (Some i) (JObj kvs) s =
           Inr (update_element i (\<lambda>el. el\<lparr>innerHTML := html\<rparr>) s)"
  using assms by (simp add: on_data_def and_then_def set_innerHTML_def)

lemma on_data_failure:
  assumes "map_of kvs ''status'' \<noteq> Some (JStr ''success'')"
    and "map_of kvs ''message'' = Some (JStr m)"
  shows \<open>on_data (Some i) (JObj kvs) s =
           Inr (update_element i
                  (\<lambda>el. el\<lparr>innerHTML := ''<div class="alert alert-danger">'' @ m @ ''</div>''\<rparr>) s)\<close>
  using assms
  by (auto simp add: on_data_def and_then_def set_innerHTML_def interpolate_def
      split: option.splits)

lemma on_error_present:
  \<open>on_error (Some i) err s =
     (update_element i
        (\<lambda>el. el\<lparr>innerHTML :=
            ''<div class="alert alert-danger">An error occurred. Please try again.</div>''\<rparr>)
        (s\<lparr>console := console s @ [(''Error:'', err)]\<rparr>), None)\<close>
  by (simp add: on_error_def set_innerHTML_def)

lemma submit_tracking_form_success:
  assumes "getElementById s ''consignment_number'' = Some input"
    and "getElementById s ''tracking-result'' = Some el"
    and "map_of kvs ''status'' = Some (JStr ''success'')"
    and "map_of kvs ''consignment'' = Some c"
    and "success_panel c = Inr html"
  shows "tracking_result_html (fst (snd (submit_tracking_form (Response (Inr (JObj kvs))) e s)))
           = Some html"
proof -
  let ?s1 = "fetch (pathname s @ ''?consignment_number='' @ el_value input) s"
  have "submit_tracking_form (Response (Inr (JObj kvs))) e s =
          (e\<lparr>defaultPrevented := True\<rparr>,
           update_element ''tracking-result'' (\<lambda>el. el\<lparr>innerHTML := html\<rparr>) ?s1, None)"
    by (simp add: submit_tracking_form_def tracking_submit_present [OF assms(1,2)]
        tracking_settled_def on_data_success [OF assms(3,4,5)])
  then show ?thesis
    by (simp add: tracking_result_html_update getElementById_fetch assms(2))
qed

lemma sublist_skip: "sublist xs zs \<Longrightarrow> sublist xs (ys @ zs)"
  by (metis sublist_append)

lemma sublist_within: "sublist l p \<Longrightarrow> sublist l (p @ r)"
  by (metis sublist_append)

lemma sublist_labelled: "suffix l p \<Longrightarrow> sublist (l @ v) (p @ v @ r)"
  unfolding suffix_def sublist_def by (metis append.assoc)

lemma sublist_value: "sublist v (p @ v @ r)"
  by (rule sublist_appendI)

text \<open>
  C1. When the response parses as JSON to an object whose \<^verbatim>\<open>status\<close> is
  \<^verbatim>\<open>"success"\<close> and whose \<^verbatim>\<open>consignment\<close> is an object with the seven
  string fields, a submission of the tracking form leaves in \<^verbatim>\<open>tracking-result\<close>
  a success panel in which each of the seven values stands right after its heading.
\<close>

theorem tracking_success_panel_fields:
  assumes "getElementById s ''consignment_number'' = Some input"
    and "getElementById s ''tracking-result'' = Some el"
    and "map_of kvs ''status'' = Some (JStr ''success'')"
    and "map_of kvs ''consignment'' = Some (JObj fs)"
    and "map_of fs ''consignment_number'' = Some (JStr n)"
    and "map_of fs ''status'' = Some (JStr st)"
    and "map_of fs ''origin'' = Some (JStr orig)"
    and "map_of fs ''destination'' = Some (JStr dest)"
    and "map_of fs ''current_location'' = Some (JStr loc)"
    and "map_of fs ''estimated_delivery'' = Some (JStr eta)"
    and "map_of fs ''updated_at'' = Some (JStr upd)"
  shows \<open>\<exists>html.
       tracking_result_html (fst (snd (submit_tracking_form (Response (Inr (JObj kvs))) e s)))
         = Some html \<and>
       sublist ''<div class="alert alert-success">'' html \<and>
       sublist (''<h4>Tracking Details for '' @ n) html \<and>
       sublist (''<strong>Status:</strong> '' @ st) html \<and>
       sublist (''<strong>Origin:</strong> '' @ orig) html \<and>
       sublist (''<strong>Destination:</strong> '' @ dest) html \<and>
       sublist (''<strong>Current Location:</strong> '' @ loc) html \<and>
       sublist (''<strong>Estimated Delivery:</strong> '' @ eta) html \<and>
       sublist (''<em>Last Updated: '' @ upd) html\<close>
proof -
  let ?html = \<open>''\<newline>                            <div class="alert alert-success">\<newline>                                <h4>Tracking Details for '' @ n @ ''</h4>\<newline>                                <p><strong>Status:</strong> '' @ st @ ''</p>\<newline>                                <p><strong>Origin:</strong> '' @ orig @ ''</p>\<newline>                                <p><strong>Destination:</strong> '' @ dest @ ''</p>\<newline>                                <p><strong>Current Location:</strong> '' @ loc @ ''</p>\<newline>                                <p><strong>Estimated Delivery:</strong> '' @ eta @ ''</p>\<newline>                                <p><em>Last Updated: '' @ upd @ ''</em></p>\<newline>                            </div>\<newline>                        ''\<close>
  have panel: "success_panel (JObj fs) = Inr ?html"
    by (rule success_panel_strings [OF assms(5-11)])
  have shown: "tracking_result_html (fst (snd (submit_tracking_form (Response (Inr (JObj kvs))) e s)))
                 = Some ?html"
    by (rule submit_tracking_form_success [OF assms(1-4) panel])
  have div: \<open>sublist ''<div class="alert alert-success">'' ?html\<close>
    by (intro sublist_within) (simp add: sublist_Cons_right)
  have f1: "sublist (''<h4>Tracking Details for '' @ n) ?html"
    by (intro sublist_skip sublist_labelled) (simp add: suffix_Cons)
  have f2: "sublist (''<strong>Status:</strong> '' @ st) ?html"
    by (intro sublist_skip sublist_labelled) (simp add: suffix_Cons)
  have f3: "sublist (''<strong>Origin:</strong> '' @ orig) ?html"
    by (intro sublist_skip sublist_labelled) (simp add: suffix_Cons)
  have f4: "sublist (''<strong>Destination:</strong> '' @ dest) ?html"
    by (intro sublist_skip sublist_labelled) (simp add: suffix_Cons)
  have f5: "sublist (''<strong>Current Location:</strong> '' @ loc) ?html"
    by (intro sublist_skip sublist_labelled) (simp add: suffix_Cons)
  have f6: "sublist (''<strong>Estimated Delivery:</strong> '' @ eta) ?html"
    by (intro sublist_skip sublist_labelled) (simp add: suffix_Cons)
  have f7: "sublist (''<em>Last Updated: '' @ upd) ?html"
    by (intro sublist_skip sublist_labelled) (simp add: suffix_Cons)

  show ?thesis
    using shown div f1 f2 f3 f4 f5 f6 f7 by blast
qed

theorem tracking_success_panel_fields_witness:
  \<open>\<exists>html.
       tracking_result_html
         (fst (snd (submit_tracking_form (Response (Inr example_success))
                      \<lparr>defaultPrevented = False\<rparr> (tracking_page ''DL1001'')))) = Some html \<and>
       sublist ''<div class="alert alert-success">'' html \<and>
       sublist ''<h4>Tracking Details for DL1001'' html \<and>
       sublist ''<strong>Status:</strong> In Transit'' html \<and>
       sublist ''<strong>Origin:</strong> Nagpur'' html \<and>
       sublist ''<strong>Destination:</strong> Pune'' html \<and>
       sublist ''<strong>Current Location:</strong> <b>Nashik</b>'' html \<and>
       sublist ''<strong>Estimated Delivery:</strong> 05 Jan 2025'' html \<and>
       sublist ''<em>Last Updated: 02 Jan 2025, 10:30'' html\<close>
proof -
  define fs where "fs = (case example_consignment of JObj fs \<Rightarrow> fs)"
  define kvs where "kvs = (case example_success of JObj kvs \<Rightarrow> kvs)"
  have ex: "example_success = JObj kvs" "example_consignment = JObj fs"
    by (simp_all add: kvs_def fs_def example_success_def example_consignment_def)
  have fs: "fs = [(''consignment_number'', JStr ''DL1001''),
           (''status'', JStr ''In Transit''),
           (''origin'', JStr ''Nagpur''),
           (''destination'', JStr ''Pune''),
           (''current_location'', JStr ''<b>Nashik</b>''),
           (''estimated_delivery'', JStr ''05 Jan 2025''),
           (''updated_at'', JStr ''02 Jan 2025, 10:30'')]"
    by (simp add: fs_def example_consignment_def)
  have a: "getElementById (tracking_page ''DL1001'') ''consignment_number''
             = Some (blank_element\<lparr>el_value := ''DL1001''\<rparr>)"
    by (simp add: getElementById_def tracking_page_def)
  have b: "getElementById (tracking_page ''DL1001'') ''tracking-result'' = Some blank_element"
    by (simp add: getElementById_def tracking_page_def)
  have c: "map_of kvs ''status'' = Some (JStr ''success'')"
    by (simp add: kvs_def example_success_def)
  have d: "map_of kvs ''consignment'' = Some (JObj fs)"
    by (simp add: kvs_def example_success_def ex(2))
  have f1: "map_of fs ''consignment_number'' = Some (JStr ''DL1001'')"
    by (simp add: fs)
  have f2: "map_of fs ''status'' = Some (JStr ''In Transit'')"
    by (simp add: fs)
  have f3: "map_of fs ''origin'' = Some (JStr ''Nagpur'')"
    by (simp add: fs)
  have f4: "map_of fs ''destination'' = Some (JStr ''Pune'')"
    by (simp add: fs)
  have f5: "map_of fs ''current_location'' = Some (JStr ''<b>Nashik</b>'')"
    by (simp add: fs)
  have f6: "map_of fs ''estimated_delivery'' = Some (JStr ''05 Jan 2025'')"
    by (simp add: fs)
  have f7: "map_of fs ''updated_at'' = Some (JStr ''02 Jan 2025, 10:30'')"
    by (simp add: fs)

  show ?thesis
    using tracking_success_panel_fields [OF a b c d f1 f2 f3 f4 f5 f6 f7, of "\<lparr>defaultPrevented = False\<rparr>"]
    by (simp add: ex(1))
qed

lemma tracking_settled_error:
  "r = NetworkFailure err \<or> r = Response (Inl err) \<Longrightarrow>
   tracking_settled resultDiv r s = on_error resultDiv err s"
  by (auto simp add: tracking_settled_def)

text \<open>
  C2. When the response parses as JSON to an object whose \<^verbatim>\<open>status\<close> is not
  the string \<^verbatim>\<open>"success"\<close> and whose \<^verbatim>\<open>message\<close> is the string
  \<open>m\<close>, a submission of the tracking form leaves in \<^verbatim>\<open>tracking-result\<close>
  exactly the failure panel around \<open>m\<close>.
\<close>

theorem tracking_failure_panel:
  assumes "getElementById s ''consignment_number'' = Some input"
    and "getElementById s ''tracking-result'' = Some el"
    and "map_of kvs ''status'' \<noteq> Some (JStr ''success'')"
    and "map_of kvs ''message'' = Some (JStr m)"
  shows \<open>tracking_result_html (fst (snd (submit_tracking_form (Response (Inr (JObj kvs))) e s)))
           = Some (''<div class="alert alert-danger">'' @ m @ ''</div>'')\<close>
proof -
  let ?s1 = "fetch (pathname s @ ''?consignment_number='' @ el_value input) s"
  let ?html = \<open>''<div class="alert alert-danger">'' @ m @ ''</div>''\<close>
  have "submit_tracking_form (Response (Inr (JObj kvs))) e s =
          (e\<lparr>defaultPrevented := True\<rparr>,
           update_element ''tracking-result'' (\<lambda>el. el\<lparr>innerHTML := ?html\<rparr>) ?s1, None)"
    by (simp add: submit_tracking_form_def tracking_submit_present [OF assms(1,2)]
        tracking_settled_def on_data_failure [OF assms(3,4)])
  then show ?thesis
    by (simp add: tracking_result_html_update getElementById_fetch assms(2))
qed

theorem tracking_failure_panel_witness:
  \<open>tracking_result_html
     (fst (snd (submit_tracking_form (Response (Inr example_failure))
                  \<lparr>defaultPrevented = False\<rparr> (tracking_page ''DL9999''))))
     = Some ''<div class="alert alert-danger">Not found</div>''\<close>
proof -
  define kvs where "kvs = [(''status'', JStr ''failure''), (''message'', JStr ''Not found'')]"
  have ex: "example_failure = JObj kvs"
    by (simp add: kvs_def example_failure_def)
  have a: "getElementById (tracking_page ''DL9999'') ''consignment_number''
             = Some (blank_element\<lparr>el_value := ''DL9999''\<rparr>)"
    by (simp add: getElementById_def tracking_page_def)
  have b: "getElementById (tracking_page ''DL9999'') ''tracking-result'' = Some blank_element"
    by (simp add: getElementById_def tracking_page_def)
  have c: "map_of kvs ''status'' \<noteq> Some (JStr ''success'')"
    by (simp add: kvs_def)
  have d: "map_of kvs ''message'' = Some (JStr ''Not found'')"
    by (simp add: kvs_def)
  show ?thesis
    using tracking_failure_panel [OF a b c d, of "\<lparr>defaultPrevented = False\<rparr>"]
    by (simp add: ex)
qed

text \<open>
  C3. When the request is rejected, or the body of the response is not JSON, whatever
  the reason \<open>err\<close>, a submission of the tracking form logs \<open>err\<close> with
  \<^verbatim>\<open>console.error\<close> and leaves in \<^verbatim>\<open>tracking-result\<close> the failure panel
  with the fixed message.
\<close>

theorem tracking_error_panel:
  assumes "getElementById s ''consignment_number'' = Some input"
    and "getElementById s ''tracking-result'' = Some el"
    and "r = NetworkFailure err \<or> r = Response (Inl err)"
  shows \<open>console (fst (snd (submit_tracking_form r e s))) = console s @ [(''Error:'', err)] \<and>
         tracking_result_html (fst (snd (submit_tracking_form r e s)))
           = Some ''<div class="alert alert-danger">An error occurred. Please try again.</div>''\<close>
proof -
  define s1 where "s1 = fetch (pathname s @ ''?consignment_number='' @ el_value input) s"
  define s2 where "s2 = fst (on_error (Some ''tracking-result'') err s1)"
  have submitted: "tracking_submit e s = (e\<lparr>defaultPrevented := True\<rparr>, s1, Inr (Some ''tracking-result''))"
    unfolding s1_def by (rule tracking_submit_present [OF assms(1,2)])
  have settled: "tracking_settled (Some ''tracking-result'') r s1 = (s2, None)"
    unfolding s2_def by (simp add: tracking_settled_error [OF assms(3)] on_error_present)
  have final: "fst (snd (submit_tracking_form r e s)) = s2"
    by (simp add: submit_tracking_form_def submitted settled)
  have present: "getElementById (s1\<lparr>console := console s1 @ [(''Error:'', err)]\<rparr>) ''tracking-result''
                   \<noteq> None"
    using assms(2) by (simp add: s1_def getElementById_def fetch_def)
  have log: "console s2 = console s @ [(''Error:'', err)]"
    by (simp add: s2_def on_error_present update_element_def s1_def fetch_def)
  have html: \<open>tracking_result_html s2
               = Some ''<div class="alert alert-danger">An error occurred. Please try again.</div>''\<close>
    unfolding s2_def on_error_present fst_conv
    by (rule tracking_result_html_update [OF present])
  show ?thesis
    unfolding final using log html by simp
qed

theorem tracking_error_panel_witness:
  \<open>console (fst (snd (submit_tracking_form (NetworkFailure TypeError)
                        \<lparr>defaultPrevented = False\<rparr> (tracking_page ''DL1001''))))
     = [(''Error:'', TypeError)] \<and>
   tracking_result_html
     (fst (snd (submit_tracking_form (NetworkFailure TypeError)
                  \<lparr>defaultPrevented = False\<rparr> (tracking_page ''DL1001''))))
     = Some ''<div class="alert alert-danger">An error occurred. Please try again.</div>'' \<and>
   console (fst (snd (submit_tracking_form (Response (Inl SyntaxError))
                        \<lparr>defaultPrevented = False\<rparr> (tracking_page ''DL1001''))))
     = [(''Error:'', SyntaxError)] \<and>
   tracking_result_html
     (fst (snd (submit_tracking_form (Response (Inl SyntaxError))
                  \<lparr>defaultPrevented = False\<rparr> (tracking_page ''DL1001''))))
     = Some ''<div class="alert alert-danger">An error occurred. Please try again.</div>''\<close>
proof -
  have a: "getElementById (tracking_page ''DL1001'') ''consignment_number''
             = Some (blank_element\<lparr>el_value := ''DL1001''\<rparr>)"
    by (simp add: getElementById_def tracking_page_def)
  have b: "getElementById (tracking_page ''DL1001'') ''tracking-result'' = Some blank_element"
    by (simp add: getElementById_def tracking_page_def)
  have c: "console (tracking_page ''DL1001'') = []"
    by (simp add: tracking_page_def)
  show ?thesis
    using tracking_error_panel [OF a b, of "NetworkFailure TypeError" TypeError
                                  "\<lparr>defaultPrevented = False\<rparr>"]
          tracking_error_panel [OF a b, of "Response (Inl SyntaxError)" SyntaxError
                                  "\<lparr>defaultPrevented = False\<rparr>"]
    by (simp add: c)
qed

text \<open>
  C8. The success panel is built without escaping: each of the seven string values of the
  consignment, markup included, is a contiguous part, character for character, of the
  string assigned to \<^verbatim>\<open>innerHTML\<close>.
\<close>

theorem success_panel_values_verbatim:
  assumes "getElementById s ''consignment_number'' = Some input"
    and "getElementById s ''tracking-result'' = Some el"
    and "map_of kvs ''status'' = Some (JStr ''success'')"
    and "map_of kvs ''consignment'' = Some (JObj fs)"
    and "map_of fs ''consignment_number'' = Some (JStr n)"
    and "map_of fs ''status'' = Some (JStr st)"
    and "map_of fs ''origin'' = Some (JStr orig)"
    and "map_of fs ''destination'' = Some (JStr dest)"
    and "map_of fs ''current_location'' = Some (JStr loc)"
    and "map_of fs ''estimated_delivery'' = Some (JStr eta)"
    and "map_of fs ''updated_at'' = Some (JStr upd)"
  shows \<open>\<exists>html.
       tracking_result_html (fst (snd (submit_tracking_form (Response (Inr (JObj kvs))) e s)))
         = Some html \<and>
       sublist n html \<and>
       sublist st html \<and>
       sublist orig html \<and>
       sublist dest html \<and>
       sublist loc html \<and>
       sublist eta html \<and>
       sublist upd html\<close>
proof -
  let ?html = \<open>''\<newline>                            <div class="alert alert-success">\<newline>                                <h4>Tracking Details for '' @ n @ ''</h4>\<newline>                                <p><strong>Status:</strong> '' @ st @ ''</p>\<newline>                                <p><strong>Origin:</strong> '' @ orig @ ''</p>\<newline>                                <p><strong>Destination:</strong> '' @ dest @ ''</p>\<newline>                                <p><strong>Current Location:</strong> '' @ loc @ ''</p>\<newline>                                <p><strong>Estimated Delivery:</strong> '' @ eta @ ''</p>\<newline>                                <p><em>Last Updated: '' @ upd @ ''</em></p>\<newline>                            </div>\<newline>                        ''\<close>
  have panel: "success_panel (JObj fs) = Inr ?html"
    by (rule success_panel_strings [OF assms(5-11)])
  have shown: "tracking_result_html (fst (snd (submit_tracking_form (Response (Inr (JObj kvs))) e s)))
                 = Some ?html"
    by (rule submit_tracking_form_success [OF assms(1-4) panel])
  have f1: "sublist n ?html"
    by (intro sublist_skip sublist_value)
  have f2: "sublist st ?html"
    by (intro sublist_skip sublist_value)
  have f3: "sublist orig ?html"
    by (intro sublist_skip sublist_value)
  have f4: "sublist dest ?html"
    by (intro sublist_skip sublist_value)
  have f5: "sublist loc ?html"
    by (intro sublist_skip sublist_value)
  have f6: "sublist eta ?html"
    by (intro sublist_skip sublist_value)
  have f7: "sublist upd ?html"
    by (intro sublist_skip sublist_value)

  show ?thesis
    using shown f1 f2 f3 f4 f5 f6 f7 by blast
qed

theorem success_panel_values_verbatim_witness:
  \<open>\<exists>html.
       tracking_result_html
         (fst (snd (submit_tracking_form (Response (Inr example_markup))
                      \<lparr>defaultPrevented = False\<rparr> (tracking_page ''DL1001'')))) = Some html \<and>
       sublist ''<i>DL1001</i>'' html \<and>
       sublist ''<script>alert(1)</script>'' html \<and>
       sublist ''Nagpur & Wardha'' html \<and>
       sublist ''<a href="/x">Pune</a>'' html \<and>
       sublist ''<b>Nashik</b>'' html \<and>
       sublist ''5 < 6'' html \<and>
       sublist ''<!-- -->'' html\<close>
proof -
  define fs where \<open>fs = [(''consignment_number'', JStr ''<i>DL1001</i>''),
                  (''status'', JStr ''<script>alert(1)</script>''),
                  (''origin'', JStr ''Nagpur & Wardha''),
                  (''destination'', JStr ''<a href="/x">Pune</a>''),
                  (''current_location'', JStr ''<b>Nashik</b>''),
                  (''estimated_delivery'', JStr ''5 < 6''),
                  (''updated_at'', JStr ''<!-- -->'')]\<close>
  define kvs where "kvs = [(''status'', JStr ''success''), (''consignment'', JObj fs)]"
  have ex: "example_markup = JObj kvs"
    by (simp add: kvs_def fs_def example_markup_def)
  note fs = fs_def
  have a: "getElementById (tracking_page ''DL1001'') ''consignment_number''
             = Some (blank_element\<lparr>el_value := ''DL1001''\<rparr>)"
    by (simp add: getElementById_def tracking_page_def)
  have b: "getElementById (tracking_page ''DL1001'') ''tracking-result'' = Some blank_element"
    by (simp add: getElementById_def tracking_page_def)
  have c: "map_of kvs ''status'' = Some (JStr ''success'')"
    by (simp add: kvs_def)
  have d: "map_of kvs ''consignment'' = Some (JObj fs)"
    by (simp add: kvs_def)
  have f1: \<open>map_of fs ''consignment_number'' = Some (JStr ''<i>DL1001</i>'')\<close>
    by (simp add: fs)
  have f2: \<open>map_of fs ''status'' = Some (JStr ''<script>alert(1)</script>'')\<close>
    by (simp add: fs)
  have f3: \<open>map_of fs ''origin'' = Some (JStr ''Nagpur & Wardha'')\<close>
    by (simp add: fs)
  have f4: \<open>map_of fs ''destination'' = Some (JStr ''<a href="/x">Pune</a>'')\<close>
    by (simp add: fs)
  have f5: \<open>map_of fs ''current_location'' = Some (JStr ''<b>Nashik</b>'')\<close>
    by (simp add: fs)
  have f6: \<open>map_of fs ''estimated_delivery'' = Some (JStr ''5 < 6'')\<close>
    by (simp add: fs)
  have f7: \<open>map_of fs ''updated_at'' = Some (JStr ''<!-- -->'')\<close>
    by (simp add: fs)

  show ?thesis
    using success_panel_values_verbatim [OF a b c d f1 f2 f3 f4 f5 f6 f7, of "\<lparr>defaultPrevented = False\<rparr>"]
    by (simp add: ex)
qed

section \<open>Facts about the homepage search form and about both listeners\<close>

lemma home_submit_present:
  assumes "getElementById s ''home-tracking-id'' = Some input"
  shows "home_submit e s =
           (e\<lparr>defaultPrevented := True\<rparr>,
            (if el_value input \<noteq> []
             then s\<lparr>location_href := Some (''/track-consignment/?consignment_number='' @ el_value input)\<rparr>
             else s),
            None)"
  using assms by (simp add: home_submit_def)

lemma tracking_submit_prevents: "defaultPrevented (fst (tracking_submit e s))"
  by (simp add: tracking_submit_def Let_def split: option.splits)

lemma home_submit_prevents: "defaultPrevented (fst (home_submit e s))"
  by (simp add: home_submit_def Let_def split: option.splits)

lemma dispatch_submit_listener:
  assumes "defaultPrevented (fst (listener \<lparr>defaultPrevented = False\<rparr> s))"
  shows "dispatch_submit listener action s = snd (listener \<lparr>defaultPrevented = False\<rparr> s)"
  using assms by (cases "listener \<lparr>defaultPrevented = False\<rparr> s") (simp add: dispatch_submit_def)

text \<open>
  C4. With a value \<open>v\<close> that is not empty in \<^verbatim>\<open>home-tracking-id\<close>, submitting
  the homepage search form asks for a navigation to
  \<^verbatim>\<open>/track-consignment/?consignment_number=\<close> followed by \<open>v\<close>, and for no other.
\<close>

theorem home_submit_navigates:
  assumes "getElementById s ''home-tracking-id'' = Some input"
    and "el_value input = v"
    and "v \<noteq> []"
  shows "location_href (fst (dispatch_submit home_submit action s))
           = Some (''/track-consignment/?consignment_number='' @ v)"
proof -
  have "dispatch_submit home_submit action s = snd (home_submit \<lparr>defaultPrevented = False\<rparr> s)"
    by (rule dispatch_submit_listener [OF home_submit_prevents])
  then show ?thesis
    using assms(2,3) by (simp add: home_submit_present [OF assms(1)])
qed

theorem home_submit_navigates_witness:
  "location_href (fst (dispatch_submit home_submit ''/search/'' (home_page ''ABC123'')))
     = Some ''/track-consignment/?consignment_number=ABC123''"
proof -
  have a: "getElementById (home_page ''ABC123'') ''home-tracking-id''
             = Some (blank_element\<lparr>el_value := ''ABC123''\<rparr>)"
    by (simp add: getElementById_def home_page_def)
  have b: "el_value (blank_element\<lparr>el_value := ''ABC123''\<rparr>) = ''ABC123''"
    by simp
  have c: "''ABC123'' \<noteq> []"
    by simp
  show ?thesis
    using home_submit_navigates [OF a b c, of "''/search/''"] by simp
qed

text \<open>
  C6. With an empty value in \<^verbatim>\<open>home-tracking-id\<close>, submitting the homepage search
  form leaves the page as it was: no navigation, no element changed, nothing logged.
\<close>

theorem home_submit_empty_no_effect:
  assumes "getElementById s ''home-tracking-id'' = Some input"
    and "el_value input = []"
  shows "dispatch_submit home_submit action s = (s, None) \<and> snd (home_submit e s) = (s, None)"
proof -
  have "dispatch_submit home_submit action s = snd (home_submit \<lparr>defaultPrevented = False\<rparr> s)"
    by (rule dispatch_submit_listener [OF home_submit_prevents])
  then show ?thesis
    using assms(2) by (simp add: home_submit_present [OF assms(1)])
qed

theorem home_submit_empty_no_effect_witness:
  "dispatch_submit home_submit ''/search/'' (home_page []) = (home_page [], None) \<and>
   snd (home_submit \<lparr>defaultPrevented = False\<rparr> (home_page [])) = (home_page [], None)"
proof -
  have a: "getElementById (home_page []) ''home-tracking-id''
             = Some (blank_element\<lparr>el_value := []\<rparr>)"
    by (simp add: getElementById_def home_page_def)
  have b: "el_value (blank_element\<lparr>el_value := []\<rparr>) = []"
    by simp
  show ?thesis
    using home_submit_empty_no_effect [OF a b, of "''/search/''" "\<lparr>defaultPrevented = False\<rparr>"]
    by simp
qed

section \<open>What a submission of the tracking form leaves untouched\<close>

lemma set_innerHTML_frame:
  assumes "set_innerHTML resultDiv html s = Inr s1"
  shows "requests s1 = requests s \<and> location_href s1 = location_href s \<and>
         console s1 = console s \<and> pathname s1 = pathname s \<and>
         clock s1 = clock s \<and> timers s1 = timers s \<and>
         (\<forall>i. Some i \<noteq> resultDiv \<longrightarrow> elements s1 i = elements s i)"
  using assms
  by (auto simp add: set_innerHTML_def update_element_def split: option.splits)

lemma on_data_frame:
  assumes "on_data resultDiv data s = Inr s1"
  shows "requests s1 = requests s \<and> location_href s1 = location_href s \<and>
         console s1 = console s \<and> pathname s1 = pathname s \<and>
         clock s1 = clock s \<and> timers s1 = timers s \<and>
         (\<forall>i. Some i \<noteq> resultDiv \<longrightarrow> elements s1 i = elements s i)"
proof -
  from assms obtain html where "set_innerHTML resultDiv html s = Inr s1"
    by (auto simp add: on_data_def and_then_def split: sum.splits if_splits)
  then show ?thesis
    by (rule set_innerHTML_frame)
qed

lemma on_error_frame:
  assumes "on_error resultDiv err s = (s1, u)"
  shows "requests s1 = requests s \<and> location_href s1 = location_href s \<and>
         pathname s1 = pathname s \<and> clock s1 = clock s \<and> timers s1 = timers s \<and>
         (\<forall>i. Some i \<noteq> resultDiv \<longrightarrow> elements s1 i = elements s i)"
proof (cases resultDiv)
  case None
  with assms show ?thesis
    by (auto simp add: on_error_def set_innerHTML_def)
next
  case (Some i)
  with assms show ?thesis
    by (auto simp add: on_error_present update_element_def)
qed

lemma tracking_settled_frame:
  assumes "tracking_settled resultDiv r s = (s1, u)"
  shows "requests s1 = requests s \<and> location_href s1 = location_href s \<and>
         pathname s1 = pathname s \<and> clock s1 = clock s \<and> timers s1 = timers s \<and>
         (\<forall>i. Some i \<noteq> resultDiv \<longrightarrow> elements s1 i = elements s i)"
proof -
  consider err where "on_error resultDiv err s = (s1, u)"
    | data where "on_data resultDiv data s = Inr s1"
    using assms by (auto simp add: tracking_settled_def split: fetch_result.splits sum.splits)
  then show ?thesis
  proof cases
    case 1
    then show ?thesis by (rule on_error_frame)
  next
    case 2
    then show ?thesis using on_data_frame by blast
  qed
qed

lemma tracking_submit_cases:
  obtains (missing) "tracking_submit e s = (e\<lparr>defaultPrevented := True\<rparr>, s, Inl TypeError)"
  | (issued) url resultDiv where
      "resultDiv = None \<or> resultDiv = Some ''tracking-result''"
      "tracking_submit e s = (e\<lparr>defaultPrevented := True\<rparr>, fetch url s, Inr resultDiv)"
proof (cases "getElementById s ''consignment_number''")
  case None
  then have "tracking_submit e s = (e\<lparr>defaultPrevented := True\<rparr>, s, Inl TypeError)"
    by (simp add: tracking_submit_def)
  then show ?thesis by (rule missing)
next
  case (Some input)
  define resultDiv where
    "resultDiv = (case getElementById s ''tracking-result'' of
                    None \<Rightarrow> None | Some el \<Rightarrow> Some ''tracking-result'')"
  have rd: "resultDiv = None \<or> resultDiv = Some ''tracking-result''"
    by (simp add: resultDiv_def split: option.splits)
  have "tracking_submit e s =
          (e\<lparr>defaultPrevented := True\<rparr>,
           fetch (pathname s @ ''?consignment_number='' @ el_value input) s, Inr resultDiv)"
    using Some by (simp add: tracking_submit_def resultDiv_def)
  with rd show ?thesis by (rule issued)
qed

lemma submit_tracking_form_frame:
  "location_href (fst (snd (submit_tracking_form r e s))) = location_href s \<and>
   pathname (fst (snd (submit_tracking_form r e s))) = pathname s \<and>
   clock (fst (snd (submit_tracking_form r e s))) = clock s \<and>
   timers (fst (snd (submit_tracking_form r e s))) = timers s \<and>
   (\<forall>i. i \<noteq> ''tracking-result'' \<longrightarrow>
      elements (fst (snd (submit_tracking_form r e s))) i = elements s i)"
proof (cases rule: tracking_submit_cases [of e s])
  case missing
  then show ?thesis
    by (simp add: submit_tracking_form_def)
next
  case (issued url resultDiv)
  obtain s2 u where settled: "tracking_settled resultDiv r (fetch url s) = (s2, u)"
    by (cases "tracking_settled resultDiv r (fetch url s)")
  have final: "fst (snd (submit_tracking_form r e s)) = s2"
    by (simp add: submit_tracking_form_def issued(2) settled)
  have "location_href s2 = location_href (fetch url s) \<and>
        pathname s2 = pathname (fetch url s) \<and> clock s2 = clock (fetch url s) \<and>
        timers s2 = timers (fetch url s) \<and>
        (\<forall>i. Some i \<noteq> resultDiv \<longrightarrow> elements s2 i = elements (fetch url s) i)"
    using tracking_settled_frame [OF settled] by simp
  then show ?thesis
    unfolding final using issued(1) by (auto simp add: fetch_def)
qed

lemma submit_tracking_form_requests:
  assumes "getElementById s ''consignment_number'' = Some input"
  shows "requests (fst (snd (submit_tracking_form r e s)))
           = requests s @ [(''GET'', pathname s @ ''?consignment_number='' @ el_value input)]"
proof -
  define s1 where "s1 = fetch (pathname s @ ''?consignment_number='' @ el_value input) s"
  obtain resultDiv where sub:
    "tracking_submit e s = (e\<lparr>defaultPrevented := True\<rparr>, s1, Inr resultDiv)"
    using assms by (simp add: tracking_submit_def s1_def)
  obtain s2 u where settled: "tracking_settled resultDiv r s1 = (s2, u)"
    by (cases "tracking_settled resultDiv r s1")
  have final: "fst (snd (submit_tracking_form r e s)) = s2"
    by (simp add: submit_tracking_form_def sub settled)
  have "requests s2 = requests s1"
    using tracking_settled_frame [OF settled] by simp
  then show ?thesis
    unfolding final by (simp add: s1_def fetch_def)
qed

lemma submit_tracking_form_settled:
  assumes "getElementById s ''consignment_number'' = Some input"
    and "resultDiv = (case getElementById s ''tracking-result'' of
                        None \<Rightarrow> None | Some el \<Rightarrow> Some ''tracking-result'')"
    and "s1 = fetch (pathname s @ ''?consignment_number='' @ el_value input) s"
  shows "snd (submit_tracking_form r e s) = tracking_settled resultDiv r s1"
proof -
  have "tracking_submit e s = (e\<lparr>defaultPrevented := True\<rparr>, s1, Inr resultDiv)"
    using assms(1) unfolding assms(2,3) by (simp add: tracking_submit_def)
  then show ?thesis
    by (cases "tracking_settled resultDiv r s1") (simp add: submit_tracking_form_def)
qed

text \<open>
  C7. A submission of the tracking form with the value \<open>v\<close> in the input issues exactly
  one request, a GET of the page's path followed by \<^verbatim>\<open>?consignment_number=\<close> and
  \<open>v\<close>, whatever the request comes to; and the submission reads the response as JSON:
  with \<open>s1\<close> the page once the request is sent and \<open>resultDiv\<close> what the listener
  found for \<^verbatim>\<open>tracking-result\<close>, the outcome of the submission on a body that
  parses to \<open>data\<close> is that of the data callback on \<open>data\<close> (and of
  \<^verbatim>\<open>catch\<close> if the callback throws), and on a body that does not parse it is
  that of \<^verbatim>\<open>catch\<close> on the parse error.
\<close>

theorem tracking_submit_issues_one_get:
  assumes "getElementById s ''consignment_number'' = Some input"
    and "el_value input = v"
    and "resultDiv = (case getElementById s ''tracking-result'' of
                        None \<Rightarrow> None | Some el \<Rightarrow> Some ''tracking-result'')"
    and "s1 = fetch (pathname s @ ''?consignment_number='' @ v) s"
  shows "requests (fst (snd (submit_tracking_form r e s)))
           = requests s @ [(''GET'', pathname s @ ''?consignment_number='' @ v)] \<and>
         snd (submit_tracking_form (Response (Inr data)) e s)
           = (case on_data resultDiv data s1 of
                Inl err \<Rightarrow> on_error resultDiv err s1
              | Inr s2 \<Rightarrow> (s2, None)) \<and>
         snd (submit_tracking_form (Response (Inl err)) e s) = on_error resultDiv err s1"
proof -
  have s1: "s1 = fetch (pathname s @ ''?consignment_number='' @ el_value input) s"
    using assms(2,4) by simp
  have one: "requests (fst (snd (submit_tracking_form r e s)))
               = requests s @ [(''GET'', pathname s @ ''?consignment_number='' @ v)]"
    using submit_tracking_form_requests [OF assms(1), of r e] assms(2) by simp
  have parsed: "snd (submit_tracking_form (Response (Inr data)) e s)
                  = (case on_data resultDiv data s1 of
                       Inl err \<Rightarrow> on_error resultDiv err s1
                     | Inr s2 \<Rightarrow> (s2, None))"
    unfolding submit_tracking_form_settled [OF assms(1,3) s1]
    by (simp add: tracking_settled_def)
  have malformed: "snd (submit_tracking_form (Response (Inl err)) e s) = on_error resultDiv err s1"
    unfolding submit_tracking_form_settled [OF assms(1,3) s1]
    by (simp add: tracking_settled_def)
  from one parsed malformed show ?thesis
    by blast
qed

theorem tracking_submit_issues_one_get_witness:
  \<open>requests (fst (snd (submit_tracking_form (Response (Inr example_failure))
                         \<lparr>defaultPrevented = False\<rparr> (tracking_page ''DL1001''))))
     = [(''GET'', ''/track-consignment/?consignment_number=DL1001'')] \<and>
   tracking_result_html
     (fst (snd (submit_tracking_form (Response (Inr example_failure))
                  \<lparr>defaultPrevented = False\<rparr> (tracking_page ''DL1001''))))
     = Some ''<div class="alert alert-danger">Not found</div>'' \<and>
   console
     (fst (snd (submit_tracking_form (Response (Inl SyntaxError))
                  \<lparr>defaultPrevented = False\<rparr> (tracking_page ''DL1001''))))
     = [(''Error:'', SyntaxError)]\<close>
proof -
  define s1 where
    "s1 = fetch (pathname (tracking_page ''DL1001'') @ ''?consignment_number='' @ ''DL1001'')
            (tracking_page ''DL1001'')"
  define kvs where "kvs = [(''status'', JStr ''failure''), (''message'', JStr ''Not found'')]"
  have ex: "example_failure = JObj kvs"
    by (simp add: kvs_def example_failure_def)
  have a: "getElementById (tracking_page ''DL1001'') ''consignment_number''
             = Some (blank_element\<lparr>el_value := ''DL1001''\<rparr>)"
    by (simp add: getElementById_def tracking_page_def)
  have b: "el_value (blank_element\<lparr>el_value := ''DL1001''\<rparr>) = ''DL1001''"
    by simp
  have c: "Some ''tracking-result'' =
             (case getElementById (tracking_page ''DL1001'') ''tracking-result'' of
                None \<Rightarrow> None | Some el \<Rightarrow> Some ''tracking-result'')"
    by (simp add: getElementById_def tracking_page_def)
  note w = tracking_submit_issues_one_get
      [OF a b c s1_def, where e = "\<lparr>defaultPrevented = False\<rparr>"
         and r = "Response (Inr example_failure)" and data = example_failure
         and err = SyntaxError]
  have req: "requests (tracking_page ''DL1001'') = []"
    and path: "pathname (tracking_page ''DL1001'') = ''/track-consignment/''"
    by (simp_all add: tracking_page_def)
  have present: "getElementById s1 ''tracking-result'' \<noteq> None"
    by (simp add: s1_def getElementById_def fetch_def tracking_page_def)
  have log: "console s1 = []"
    by (simp add: s1_def fetch_def tracking_page_def)
  have st: "map_of kvs ''status'' \<noteq> Some (JStr ''success'')"
    and msg: "map_of kvs ''message'' = Some (JStr ''Not found'')"
    by (simp_all add: kvs_def)
  have "requests (fst (snd (submit_tracking_form (Response (Inr example_failure))
                         \<lparr>defaultPrevented = False\<rparr> (tracking_page ''DL1001''))))
          = requests (tracking_page ''DL1001'') @
            [(''GET'', pathname (tracking_page ''DL1001'') @ ''?consignment_number='' @ ''DL1001'')]"
    using w by blast
  then have p1: "requests (fst (snd (submit_tracking_form (Response (Inr example_failure))
                         \<lparr>defaultPrevented = False\<rparr> (tracking_page ''DL1001''))))
              = [(''GET'', ''/track-consignment/?consignment_number=DL1001'')]"
    by (simp add: req path)
  have "snd (submit_tracking_form (Response (Inr example_failure))
               \<lparr>defaultPrevented = False\<rparr> (tracking_page ''DL1001''))
          = (case on_data (Some ''tracking-result'') example_failure s1 of
               Inl err \<Rightarrow> on_error (Some ''tracking-result'') err s1
             | Inr s2 \<Rightarrow> (s2, None))"
    using w by blast
  then have p2: \<open>tracking_result_html
     (fst (snd (submit_tracking_form (Response (Inr example_failure))
                  \<lparr>defaultPrevented = False\<rparr> (tracking_page ''DL1001''))))
     = Some ''<div class="alert alert-danger">Not found</div>''\<close>
    using tracking_result_html_update [OF present, of \<open>''<div class="alert alert-danger">Not found</div>''\<close>]
    by (simp add: ex on_data_failure [OF st msg])
  have "snd (submit_tracking_form (Response (Inl SyntaxError))
               \<lparr>defaultPrevented = False\<rparr> (tracking_page ''DL1001''))
          = on_error (Some ''tracking-result'') SyntaxError s1"
    using w by blast
  then have p3: "console
     (fst (snd (submit_tracking_form (Response (Inl SyntaxError))
                  \<lparr>defaultPrevented = False\<rparr> (tracking_page ''DL1001''))))
     = [(''Error:'', SyntaxError)]"
    by (simp add: on_error_present update_element_def log)
  from p1 p2 p3 show ?thesis
    by blast
qed

text \<open>
  C10. Both listeners call \<^verbatim>\<open>preventDefault\<close> first, whatever the page holds: the
  event is prevented even when the input is missing and reading it throws. So the
  dispatch never performs the form's default navigation; an empty homepage submission
  asks for no navigation; and a submission of the tracking form, whatever the request
  comes to, asks for no navigation and changes nothing of the page (its path, its timers,
  its elements) other than the element \<^verbatim>\<open>tracking-result\<close>. What it adds to
  the console and to the requests sent is output, not part of the page.
\<close>

theorem submit_listeners_prevent_default:
  "defaultPrevented (fst (tracking_submit e s)) \<and>
   defaultPrevented (fst (home_submit e s)) \<and>
   (getElementById s ''consignment_number'' = None \<longrightarrow>
      tracking_submit e s = (e\<lparr>defaultPrevented := True\<rparr>, s, Inl TypeError)) \<and>
   (getElementById s ''home-tracking-id'' = None \<longrightarrow>
      home_submit e s = (e\<lparr>defaultPrevented := True\<rparr>, s, Some TypeError)) \<and>
   dispatch_submit tracking_submit action s = snd (tracking_submit \<lparr>defaultPrevented = False\<rparr> s) \<and>
   dispatch_submit home_submit action s = snd (home_submit \<lparr>defaultPrevented = False\<rparr> s) \<and>
   (getElementById s ''home-tracking-id'' = Some input \<and> el_value input = [] \<longrightarrow>
      location_href (fst (dispatch_submit home_submit action s)) = location_href s) \<and>
   location_href (fst (snd (submit_tracking_form r e s))) = location_href s \<and>
   pathname (fst (snd (submit_tracking_form r e s))) = pathname s \<and>
   clock (fst (snd (submit_tracking_form r e s))) = clock s \<and>
   timers (fst (snd (submit_tracking_form r e s))) = timers s \<and>
   (\<forall>i. i \<noteq> ''tracking-result'' \<longrightarrow>
      elements (fst (snd (submit_tracking_form r e s))) i = elements s i)"
proof -
  have t: "dispatch_submit tracking_submit action s
             = snd (tracking_submit \<lparr>defaultPrevented = False\<rparr> s)"
    by (rule dispatch_submit_listener [OF tracking_submit_prevents])
  have h: "dispatch_submit home_submit action s = snd (home_submit \<lparr>defaultPrevented = False\<rparr> s)"
    by (rule dispatch_submit_listener [OF home_submit_prevents])
  have t_missing: "getElementById s ''consignment_number'' = None \<longrightarrow>
      tracking_submit e s = (e\<lparr>defaultPrevented := True\<rparr>, s, Inl TypeError)"
    by (simp add: tracking_submit_def)
  have h_missing: "getElementById s ''home-tracking-id'' = None \<longrightarrow>
      home_submit e s = (e\<lparr>defaultPrevented := True\<rparr>, s, Some TypeError)"
    by (simp add: home_submit_def)
  have h_empty: "getElementById s ''home-tracking-id'' = Some input \<and> el_value input = [] \<longrightarrow>
      location_href (fst (dispatch_submit home_submit action s)) = location_href s"
    unfolding h by (simp add: home_submit_def)
  show ?thesis
    using tracking_submit_prevents [of e s] home_submit_prevents [of e s] t h
      t_missing h_missing h_empty submit_tracking_form_frame [of r e s]
    by blast
qed

theorem submit_listeners_prevent_default_witness:
  "defaultPrevented (fst (tracking_submit \<lparr>defaultPrevented = False\<rparr> (home_page ''DL1001''))) \<and>
   tracking_submit \<lparr>defaultPrevented = False\<rparr> (home_page ''DL1001'')
     = (\<lparr>defaultPrevented = True\<rparr>, home_page ''DL1001'', Inl TypeError) \<and>
   location_href (fst (dispatch_submit home_submit ''/search/'' (home_page []))) = None \<and>
   location_href
     (fst (snd (submit_tracking_form (Response (Inr example_success))
                  \<lparr>defaultPrevented = False\<rparr> (tracking_page ''DL1001'')))) = None \<and>
   elements
     (fst (snd (submit_tracking_form (Response (Inr example_success))
                  \<lparr>defaultPrevented = False\<rparr> (tracking_page ''DL1001'')))) ''consignment_number''
     = Some (blank_element\<lparr>el_value := ''DL1001''\<rparr>)"
proof -
  have a: "getElementById (home_page ''DL1001'') ''consignment_number'' = None"
    by (simp add: getElementById_def home_page_def)
  have b: "getElementById (home_page []) ''home-tracking-id'' = Some (blank_element\<lparr>el_value := []\<rparr>)"
    by (simp add: getElementById_def home_page_def)
  have c: "el_value (blank_element\<lparr>el_value := []\<rparr>) = []"
    by simp
  have d: "location_href (home_page []) = None"
    by (simp add: home_page_def)
  have f: "location_href (tracking_page ''DL1001'') = None"
    and g: "elements (tracking_page ''DL1001'') ''consignment_number''
              = Some (blank_element\<lparr>el_value := ''DL1001''\<rparr>)"
    by (simp_all add: tracking_page_def)
  have n: "''consignment_number'' \<noteq> ''tracking-result''"
    by simp
  note w1 = submit_listeners_prevent_default
      [where e = "\<lparr>defaultPrevented = False\<rparr>" and s = "home_page ''DL1001''"
         and action = "''/search/''" and input = blank_element
         and r = "Response (Inr example_success)"]
  note w2 = submit_listeners_prevent_default
      [where e = "\<lparr>defaultPrevented = False\<rparr>" and s = "home_page []"
         and action = "''/search/''" and input = "blank_element\<lparr>el_value := []\<rparr>"
         and r = "Response (Inr example_success)"]
  note w3 = submit_listeners_prevent_default
      [where e = "\<lparr>defaultPrevented = False\<rparr>" and s = "tracking_page ''DL1001''"
         and action = "''/search/''" and input = blank_element
         and r = "Response (Inr example_success)"]
  have p1: "defaultPrevented (fst (tracking_submit \<lparr>defaultPrevented = False\<rparr> (home_page ''DL1001'')))"
    using w1 by blast
  have p2: "tracking_submit \<lparr>defaultPrevented = False\<rparr> (home_page ''DL1001'')
              = (\<lparr>defaultPrevented = True\<rparr>, home_page ''DL1001'', Inl TypeError)"
    using w1 a by simp
  from w2 have "getElementById (home_page []) ''home-tracking-id''
                  = Some (blank_element\<lparr>el_value := []\<rparr>) \<and>
                el_value (blank_element\<lparr>el_value := []\<rparr>) = [] \<longrightarrow>
                location_href (fst (dispatch_submit home_submit ''/search/'' (home_page [])))
                  = location_href (home_page [])"
    by blast
  with b c d
  have p3: "location_href (fst (dispatch_submit home_submit ''/search/'' (home_page []))) = None"
    by simp
  have p4: "location_href
     (fst (snd (submit_tracking_form (Response (Inr example_success))
                  \<lparr>defaultPrevented = False\<rparr> (tracking_page ''DL1001'')))) = None"
    using w3 f by simp
  have p5: "elements
     (fst (snd (submit_tracking_form (Response (Inr example_success))
                  \<lparr>defaultPrevented = False\<rparr> (tracking_page ''DL1001'')))) ''consignment_number''
     = Some (blank_element\<lparr>el_value := ''DL1001''\<rparr>)"
    using w3 g n by simp
  show ?thesis
    using p1 p2 p3 p4 p5 by blast
qed

lemma query_param_plain:
  "query_param ''consignment_number'' ''/track-consignment/?consignment_number=ABC123''
     = Some ''ABC123''"
  by (simp add: query_param_def url_query_def)

text \<open>
  C9. Both URLs are the plain concatenation of a prefix and the typed value, nothing
  encoded: the request of the tracking form goes to the path followed by
  \<^verbatim>\<open>?consignment_number=\<close> and the value, and the navigation of the homepage form,
  when the value is not empty, to \<^verbatim>\<open>/track-consignment/?consignment_number=\<close> and
  the value. So the parameter the backend reads can differ from what was typed:
  for \<^verbatim>\<open>DL&1001\<close> in the tracking form and for \<^verbatim>\<open>DL#1001\<close> in the
  homepage form it reads \<^verbatim>\<open>DL\<close>.
\<close>

theorem query_urls_not_encoded:
  "(getElementById s ''consignment_number'' = Some input \<and> el_value input = v \<longrightarrow>
      requests (fst (snd (tracking_submit e s)))
        = requests s @ [(''GET'', pathname s @ ''?consignment_number='' @ v)]) \<and>
   (getElementById s ''home-tracking-id'' = Some input \<and> el_value input = v \<and> v \<noteq> [] \<longrightarrow>
      location_href (fst (snd (home_submit e s)))
        = Some (''/track-consignment/?consignment_number='' @ v)) \<and>
   map (\<lambda>req. query_param ''consignment_number'' (snd req))
       (requests (fst (snd (tracking_submit e (tracking_page ''DL&1001'')))))
     = [Some ''DL''] \<and>
   map_option (query_param ''consignment_number'')
       (location_href (fst (snd (home_submit e (home_page ''DL#1001'')))))
     = Some (Some ''DL'')"
proof -
  have fetch_url: "getElementById s ''consignment_number'' = Some input \<and> el_value input = v \<longrightarrow>
      requests (fst (snd (tracking_submit e s)))
        = requests s @ [(''GET'', pathname s @ ''?consignment_number='' @ v)]"
    by (auto simp add: tracking_submit_def fetch_def)
  have redirect_url:
    "getElementById s ''home-tracking-id'' = Some input \<and> el_value input = v \<and> v \<noteq> [] \<longrightarrow>
      location_href (fst (snd (home_submit e s)))
        = Some (''/track-consignment/?consignment_number='' @ v)"
    by (auto simp add: home_submit_def)
  have amp: "requests (fst (snd (tracking_submit e (tracking_page ''DL&1001''))))
               = [(''GET'', ''/track-consignment/?consignment_number=DL&1001'')]"
    by (simp add: tracking_submit_def fetch_def tracking_page_def getElementById_def Let_def)
  have amp_read: "query_param ''consignment_number''
                    ''/track-consignment/?consignment_number=DL&1001'' = Some ''DL''"
    by (simp add: query_param_def url_query_def)
  have hash: "location_href (fst (snd (home_submit e (home_page ''DL#1001''))))
               = Some ''/track-consignment/?consignment_number=DL#1001''"
    by (simp add: home_submit_def home_page_def getElementById_def Let_def)
  have hash_read: "query_param ''consignment_number''
                    ''/track-consignment/?consignment_number=DL#1001'' = Some ''DL''"
    by (simp add: query_param_def url_query_def)
  show ?thesis
    using fetch_url redirect_url by (simp add: amp amp_read hash hash_read)
qed

theorem query_urls_not_encoded_witness:
  "requests (fst (snd (tracking_submit \<lparr>defaultPrevented = False\<rparr> (tracking_page ''DL 1001''))))
     = [(''GET'', ''/track-consignment/?consignment_number=DL 1001'')] \<and>
   location_href (fst (snd (home_submit \<lparr>defaultPrevented = False\<rparr> (home_page ''DL 1001''))))
     = Some ''/track-consignment/?consignment_number=DL 1001''"
proof -
  have a: "getElementById (tracking_page ''DL 1001'') ''consignment_number''
             = Some (blank_element\<lparr>el_value := ''DL 1001''\<rparr>)"
    by (simp add: getElementById_def tracking_page_def)
  have b: "getElementById (home_page ''DL 1001'') ''home-tracking-id''
             = Some (blank_element\<lparr>el_value := ''DL 1001''\<rparr>)"
    by (simp add: getElementById_def home_page_def)
  have c: "el_value (blank_element\<lparr>el_value := ''DL 1001''\<rparr>) = ''DL 1001''"
    by simp
  have d: "requests (tracking_page ''DL 1001'') = []"
    and f: "pathname (tracking_page ''DL 1001'') = ''/track-consignment/''"
    by (simp_all add: tracking_page_def)
  note w1 = query_urls_not_encoded
      [where s = "tracking_page ''DL 1001''" and input = "blank_element\<lparr>el_value := ''DL 1001''\<rparr>"
         and v = "''DL 1001''" and e = "\<lparr>defaultPrevented = False\<rparr>"]
  note w2 = query_urls_not_encoded
      [where s = "home_page ''DL 1001''" and input = "blank_element\<lparr>el_value := ''DL 1001''\<rparr>"
         and v = "''DL 1001''" and e = "\<lparr>defaultPrevented = False\<rparr>"]
  have p1: "requests (fst (snd (tracking_submit \<lparr>defaultPrevented = False\<rparr> (tracking_page ''DL 1001''))))
     = [(''GET'', ''/track-consignment/?consignment_number=DL 1001'')]"
    using w1 a c d f by simp
  have p2: "location_href (fst (snd (home_submit \<lparr>defaultPrevented = False\<rparr> (home_page ''DL 1001''))))
     = Some ''/track-consignment/?consignment_number=DL 1001''"
    using w2 b c by simp
  show ?thesis
    using p1 p2 by blast
qed

section \<open>Facts about the splash controller\<close>

lemma run_timers_none:
  "earliest (timers s) = None \<Longrightarrow> run_timers t s = s\<lparr>clock := max (clock s) t\<rparr>"
  by (subst run_timers.simps) simp

lemma run_timers_later:
  "earliest (timers s) = Some (due, cb) \<Longrightarrow> t < due \<Longrightarrow>
   run_timers t s = s\<lparr>clock := max (clock s) t\<rparr>"
  by (subst run_timers.simps) simp

lemma run_timers_due:
  "earliest (timers s) = Some (due, cb) \<Longrightarrow> due \<le> t \<Longrightarrow>
   run_timers t s =
     run_timers t
       (run_callback cb (s\<lparr>clock := max (clock s) due, timers := remove1 (due, cb) (timers s)\<rparr>))"
  by (subst run_timers.simps) simp

lemma on_load_splash:
  assumes "getElementById s ''splash-screen'' = Some el" and "timers s = []"
  shows "on_load s = s\<lparr>timers := [(clock s + 3000, FadeSplash)]\<rparr>"
  using assms by (simp add: on_load_def setTimeout_def)

text \<open>Once the dwell is over the first timer has fired and the second is pending.\<close>

lemma splash_after_dwell:
  assumes "getElementById s ''splash-screen'' = Some el" and "timers s = []"
    and "clock s + 3000 \<le> t"
  shows "run_timers t (on_load s) =
           run_timers t
             (s\<lparr>elements := (elements s)(''splash-screen'' \<mapsto> el\<lparr>style_opacity := ''0''\<rparr>),
                clock := clock s + 3000,
                timers := [(clock s + 4000, HideSplash)]\<rparr>)"
proof -
  let ?s0 = "s\<lparr>timers := [(clock s + 3000, FadeSplash)]\<rparr>"
  have e: "earliest (timers ?s0) = Some (clock s + 3000, FadeSplash)"
    by simp
  have "run_timers t ?s0 =
          run_timers t (run_callback FadeSplash
            (?s0\<lparr>clock := max (clock ?s0) (clock s + 3000),
                 timers := remove1 (clock s + 3000, FadeSplash) (timers ?s0)\<rparr>))"
    by (rule run_timers_due [OF e assms(3)])
  also have "run_callback FadeSplash
            (?s0\<lparr>clock := max (clock ?s0) (clock s + 3000),
                 timers := remove1 (clock s + 3000, FadeSplash) (timers ?s0)\<rparr>)
        = s\<lparr>elements := (elements s)(''splash-screen'' \<mapsto> el\<lparr>style_opacity := ''0''\<rparr>),
             clock := clock s + 3000,
             timers := [(clock s + 4000, HideSplash)]\<rparr>"
    using assms(1) by (simp add: setTimeout_def update_element_def getElementById_def)
  finally show ?thesis
    by (simp add: on_load_splash [OF assms(1,2)])
qed

text \<open>
  C5. With the splash element on the page and no other timer pending, the listener of
  \<^verbatim>\<open>load\<close> sets one timer, due after 3000 ms. Timers firing when they are due, the
  element is as it was before 3000 ms have passed, has opacity \<^verbatim>\<open>0\<close> from
  3000 ms on, and has display \<^verbatim>\<open>none\<close> from 4000 ms on and not before: it is
  hidden at 4000 ms after load, which is no earlier than 3000 ms and no later than 4000 ms.
\<close>

theorem splash_hidden_between_3000_and_4000:
  assumes "getElementById s ''splash-screen'' = Some el"
    and "timers s = []"
  shows "timers (on_load s) = [(clock s + 3000, FadeSplash)] \<and>
         getElementById (run_timers t (on_load s)) ''splash-screen'' =
           Some (if t < clock s + 3000 then el
                 else if t < clock s + 4000 then el\<lparr>style_opacity := ''0''\<rparr>
                 else el\<lparr>style_opacity := ''0'', style_display := ''none''\<rparr>)"
proof -
  have set: "timers (on_load s) = [(clock s + 3000, FadeSplash)]"
    by (simp add: on_load_splash [OF assms])
  let ?s1 = "s\<lparr>elements := (elements s)(''splash-screen'' \<mapsto> el\<lparr>style_opacity := ''0''\<rparr>),
               clock := clock s + 3000,
               timers := [(clock s + 4000, HideSplash)]\<rparr>"
  have e1: "earliest (timers ?s1) = Some (clock s + 4000, HideSplash)"
    by simp
  consider (before) "t < clock s + 3000"
    | (fading) "clock s + 3000 \<le> t" "t < clock s + 4000"
    | (hidden) "clock s + 4000 \<le> t"
    by linarith
  then have "getElementById (run_timers t (on_load s)) ''splash-screen'' =
           Some (if t < clock s + 3000 then el
                 else if t < clock s + 4000 then el\<lparr>style_opacity := ''0''\<rparr>
                 else el\<lparr>style_opacity := ''0'', style_display := ''none''\<rparr>)"
  proof cases
    case before
    have "earliest (timers (on_load s)) = Some (clock s + 3000, FadeSplash)"
      by (simp add: set)
    then have "run_timers t (on_load s) = (on_load s)\<lparr>clock := max (clock (on_load s)) t\<rparr>"
      using before by (rule run_timers_later)
    then show ?thesis
      using before assms(1) by (simp add: on_load_splash [OF assms] getElementById_def)
  next
    case fading
    have "run_timers t (on_load s) = run_timers t ?s1"
      by (rule splash_after_dwell [OF assms fading(1)])
    also have "\<dots> = ?s1\<lparr>clock := max (clock ?s1) t\<rparr>"
      using e1 fading(2) by (rule run_timers_later)
    finally show ?thesis
      using fading by (simp add: getElementById_def)
  next
    case hidden
    then have dwell: "clock s + 3000 \<le> t"
      by simp
    let ?s2 = "run_callback HideSplash
                 (?s1\<lparr>clock := max (clock ?s1) (clock s + 4000),
                      timers := remove1 (clock s + 4000, HideSplash) (timers ?s1)\<rparr>)"
    have none: "earliest (timers ?s2) = None"
      by (simp add: update_element_def)
    have "run_timers t (on_load s) = run_timers t ?s1"
      by (rule splash_after_dwell [OF assms dwell])
    also have "\<dots> = run_timers t ?s2"
      using e1 hidden by (rule run_timers_due)
    also have "\<dots> = ?s2\<lparr>clock := max (clock ?s2) t\<rparr>"
      using none by (rule run_timers_none)
    finally show ?thesis
      using hidden by (simp add: getElementById_def update_element_def)
  qed
  with set show ?thesis by simp
qed

theorem splash_hidden_between_3000_and_4000_witness:
  "map_option style_display (getElementById (run_timers 2999 (on_load (home_page []))) ''splash-screen'')
     = Some ''flex'' \<and>
   map_option style_opacity (getElementById (run_timers 3000 (on_load (home_page []))) ''splash-screen'')
     = Some ''0'' \<and>
   map_option style_display (getElementById (run_timers 3999 (on_load (home_page []))) ''splash-screen'')
     = Some ''flex'' \<and>
   map_option style_display (getElementById (run_timers 4000 (on_load (home_page []))) ''splash-screen'')
     = Some ''none''"
proof -
  have a: "getElementById (home_page []) ''splash-screen''
             = Some (blank_element\<lparr>style_opacity := ''1'', style_display := ''flex''\<rparr>)"
    by (simp add: getElementById_def home_page_def)
  have b: "timers (home_page []) = []"
    and c: "clock (home_page []) = 0"
    by (simp_all add: home_page_def)
  note w = splash_hidden_between_3000_and_4000 [OF a b]
  have p1: "map_option style_display
              (getElementById (run_timers 2999 (on_load (home_page []))) ''splash-screen'')
              = Some ''flex''"
    using w [of 2999] by (simp add: c)
  have p2: "map_option style_opacity
              (getElementById (run_timers 3000 (on_load (home_page []))) ''splash-screen'')
              = Some ''0''"
    using w [of 3000] by (simp add: c)
  have p3: "map_option style_display
              (getElementById (run_timers 3999 (on_load (home_page []))) ''splash-screen'')
              = Some ''flex''"
    using w [of 3999] by (simp add: c)
  have p4: "map_option style_display
              (getElementById (run_timers 4000 (on_load (home_page []))) ''splash-screen'')
              = Some ''none''"
    using w [of 4000] by (simp add: c)
  show ?thesis
    using p1 p2 p3 p4 by blast
qed

end
